theory Spec2Isabelle
  imports Main "HOL-Library.Word"
begin

section \<open>Values of the Python program\<close>

text \<open>
  The two services of the repository are \<^verbatim>\<open>tensorstore_server.py\<close> (the
  materializer: \<^verbatim>\<open>AsyncTensorStoreServer.get_2d_tile\<close>, \<^verbatim>\<open>make_my_tile\<close>,
  \<^verbatim>\<open>make_tile\<close>, \<^verbatim>\<open>volume_info\<close>) and \<^verbatim>\<open>tile_server.py\<close> (the edge:
  \<^verbatim>\<open>get_tile\<close>, \<^verbatim>\<open>get_volume_info\<close>). Python integers are unbounded, so every
  coordinate, shape entry and tile size is an \<^typ>\<open>int\<close>; path parameters of type
  \<^verbatim>\<open>int\<close> accept negative numbers, and the prefetch loop computes \<^verbatim>\<open>z-i\<close>.
\<close>

type_synonym bytes = "8 word list"

text \<open>
  Exceptions are values. \<open>ValueError\<close> carries its message, \<open>KeyError\<close> the missing
  dictionary key (an int: the zoom), \<open>LibraryError\<close> stands for whatever an external
  library raises (the image codec, the array store, the JSON parser), and
  \<open>Exception e\<close> is \<^verbatim>\<open>Exception(e)\<close>, the wrapper that \<^verbatim>\<open>make_my_tile\<close> raises.
\<close>

datatype pyexn =
    ValueError string
  | KeyError int
  | LibraryError string
  | Exception pyexn

subsection \<open>\<^verbatim>\<open>str\<close> of an int, and of an exception\<close>

definition digit_char :: "nat \<Rightarrow> char" where
  "digit_char d = ''0123456789'' ! d"

fun str_nat :: "nat \<Rightarrow> string" where
  "str_nat n = (if n < 10 then [digit_char n] else str_nat (n div 10) @ [digit_char (n mod 10)])"

declare str_nat.simps [simp del]

definition str_int :: "int \<Rightarrow> string" where
  "str_int i = (if i < 0 then CHR ''-'' # str_nat (nat (- i)) else str_nat (nat i))"

text \<open>
  \<^verbatim>\<open>str(e)\<close>: the message of a \<open>ValueError\<close>, the \<^verbatim>\<open>repr\<close> of the key of a
  \<open>KeyError\<close> (for an int key, its decimal form), and for \<^verbatim>\<open>Exception(e)\<close> the
  \<^verbatim>\<open>str\<close> of its single argument \<^verbatim>\<open>e\<close>.
\<close>

fun str_exn :: "pyexn \<Rightarrow> string" where
  "str_exn (ValueError msg) = msg"
| "str_exn (KeyError k) = str_int k"
| "str_exn (LibraryError msg) = msg"
| "str_exn (Exception e) = str_exn e"

subsection \<open>Two-dimensional arrays\<close>

text \<open>
  A two-dimensional \<^verbatim>\<open>numpy\<close> array: its shape, the name of its element type, and
  its elements as a list of rows (\<open>rows a ! i ! j\<close> is \<^verbatim>\<open>a[i][j]\<close>).
\<close>

record ndarray =
  shape :: "nat \<times> nat"
  dtype :: string
  rows :: "int list list"

text \<open>
  \<^verbatim>\<open>np.zeros((n0, n1), dtype=np.uint8)\<close>; numpy raises \<open>ValueError\<close> on a negative
  dimension.
\<close>

definition np_zeros :: "int \<times> int \<Rightarrow> pyexn + ndarray" where
  "np_zeros sh =
     (if fst sh < 0 \<or> snd sh < 0 then Inl (ValueError ''negative dimensions are not allowed'')
      else Inr \<lparr>shape = (nat (fst sh), nat (snd sh)), dtype = ''uint8'',
                rows = replicate (nat (fst sh)) (replicate (nat (snd sh)) 0)\<rparr>)"

text \<open>\<^verbatim>\<open>tile.T\<close>: the transposed array, \<^verbatim>\<open>tile.T[r][c] = tile[c][r]\<close>.\<close>

definition T :: "ndarray \<Rightarrow> ndarray" where
  "T a = \<lparr>shape = (snd (shape a), fst (shape a)), dtype = dtype a,
          rows = map (\<lambda>r. map (\<lambda>c. rows a ! c ! r) [0..<fst (shape a)]) [0..<snd (shape a)]\<rparr>"

section \<open>The volume store\<close>

text \<open>
  \<^verbatim>\<open>self.dataset_3d[zoom]\<close> is the opened array of one zoom level with the channel
  axis fixed at 0: three axes (x, y, z), a shape, an element type and the stored values.
\<close>

record volume =
  vshape :: "int \<times> int \<times> int"
  vdtype :: string
  voxel :: "int \<Rightarrow> int \<Rightarrow> int \<Rightarrow> int"

text \<open>
  The external array library's \<^verbatim>\<open>vol[start_x:end_x, start_y:end_y, z].read()\<close>. The
  library indexes by absolute position in the domain \<open>[0, shape)\<close> of each axis, with no
  wrap-around of negative indices: an interval or index that leaves the domain, or an
  interval whose end precedes its start, is an error. The result has axes (x, y):
  element \<open>[i][j]\<close> is the value stored at \<open>(start_x + i, start_y + j, z)\<close>.
\<close>

definition read_region :: "volume \<Rightarrow> int \<Rightarrow> int \<Rightarrow> int \<Rightarrow> int \<Rightarrow> int \<Rightarrow> pyexn + ndarray" where
  "read_region vol start_x end_x start_y end_y z =
     (case vshape vol of (sx, sy, sz) \<Rightarrow>
        if 0 \<le> start_x \<and> start_x \<le> end_x \<and> end_x \<le> sx
           \<and> 0 \<le> start_y \<and> start_y \<le> end_y \<and> end_y \<le> sy
           \<and> 0 \<le> z \<and> z < sz
        then Inr \<lparr>shape = (nat (end_x - start_x), nat (end_y - start_y)), dtype = vdtype vol,
                  rows = map (\<lambda>i. map (\<lambda>j. voxel vol (start_x + int i) (start_y + int j) z)
                                     [0..<nat (end_y - start_y)])
                             [0..<nat (end_x - start_x)]\<rparr>
        else Inl (LibraryError ''index out of bounds''))"

section \<open>The shared state: the byte cache and a trace of effects\<close>

text \<open>
  Both services talk to one Redis instance \<^verbatim>\<open>r\<close>; it is a map from keys to byte
  strings, and it answers every command (a lost connection is not modelled). To state
  which effects a call performs, every access to the cache, to the volume store and to
  the image codec is appended to a trace. Calls run one after the other: each
  \<^verbatim>\<open>await\<close> is completed before the next statement.
\<close>

datatype event =
    CacheExists string
  | CacheSet string bytes
  | CacheGet string
  | VolumeRead int int int int int int
  | ImageEncode

record world =
  cache :: "string \<rightharpoonup> bytes"
  trace :: "event list"

definition emit :: "event \<Rightarrow> world \<Rightarrow> world" where
  "emit ev w = w\<lparr>trace := trace w @ [ev]\<rparr>"

section \<open>\<^verbatim>\<open>AsyncTensorStoreServer\<close>\<close>

text \<open>
  The constructor opens one volume per configured zoom and stores it in the dictionary
  \<^verbatim>\<open>dataset_3d\<close>; \<^verbatim>\<open>shapes[zoom]\<close> and \<^verbatim>\<open>dtypes[zoom]\<close> are set in the same
  loop to \<^verbatim>\<open>dataset_3d[zoom].shape\<close> and \<^verbatim>\<open>.dtype\<close>, and nothing is changed
  afterwards.
\<close>

record server =
  dataset_3d :: "int \<rightharpoonup> volume"
  tile_size :: int

definition shapes :: "server \<Rightarrow> int \<rightharpoonup> int \<times> int \<times> int" where
  "shapes srv zoom = map_option vshape (dataset_3d srv zoom)"

definition dtypes :: "server \<Rightarrow> int \<rightharpoonup> string" where
  "dtypes srv zoom = map_option vdtype (dataset_3d srv zoom)"

definition z_bounds_msg :: "int \<Rightarrow> int \<Rightarrow> string" where
  "z_bounds_msg z sz = ''Tile out of z bounds: Request '' @ str_int z @ '' for [0,'' @ str_int sz @ '']''"

definition x_bounds_msg :: "int \<Rightarrow> int \<Rightarrow> string" where
  "x_bounds_msg start_x sx =
     ''Tile out of x bounds: Request '' @ str_int start_x @ '' larger than '' @ str_int sx @ '']''"

definition y_bounds_msg :: "int \<Rightarrow> int \<Rightarrow> string" where
  "y_bounds_msg start_y sy =
     ''Tile out of y bounds: Request '' @ str_int start_y @ '' larger than '' @ str_int sy @ '']''"

text \<open>
  \<^verbatim>\<open>get_2d_tile(self, col, row, z, zoom)\<close>. The first use of \<^verbatim>\<open>self.shapes[zoom]\<close>
  raises \<open>KeyError\<close> when the zoom was not opened. The checks come in the order of the
  source: the black tile for a start corner beyond the shape, then z, then x, then y,
  then the read and the transposition.
\<close>

definition get_2d_tile ::
  "server \<Rightarrow> int \<Rightarrow> int \<Rightarrow> int \<Rightarrow> int \<Rightarrow> world \<Rightarrow> (pyexn + ndarray) \<times> world" where
  "get_2d_tile srv col row z zoom w =
     (let start_x = col * tile_size srv;
          start_y = row * tile_size srv
      in case shapes srv zoom of
           None \<Rightarrow> (Inl (KeyError zoom), w)
         | Some (sx, sy, sz) \<Rightarrow>
             if start_x > sx \<or> start_y > sy
             then (np_zeros (tile_size srv, tile_size srv), w)
             else
               let end_x = min (start_x + tile_size srv) sx;
                   end_y = min (start_y + tile_size srv) sy
               in if z < 0 \<or> z \<ge> sz then (Inl (ValueError (z_bounds_msg z sz)), w)
                  else if start_x \<ge> sx then (Inl (ValueError (x_bounds_msg start_x sx)), w)
                  else if start_y \<ge> sy then (Inl (ValueError (y_bounds_msg start_y sy)), w)
                  else
                    (case dataset_3d srv zoom of
                       None \<Rightarrow> (Inl (KeyError zoom), w)
                     | Some vol \<Rightarrow>
                         let w' = emit (VolumeRead zoom start_x end_x start_y end_y z) w
                         in (case read_region vol start_x end_x start_y end_y z of
                               Inl e \<Rightarrow> (Inl e, w')
                             | Inr tile \<Rightarrow> (Inr (T tile), w'))))"

section \<open>The materializer: \<^verbatim>\<open>make_my_tile\<close> and \<^verbatim>\<open>make_tile\<close>\<close>

text \<open>
  The module-level objects of \<^verbatim>\<open>tensorstore_server.py\<close>: the \<^verbatim>\<open>tile_server\<close>, the
  image codec (\<^verbatim>\<open>Image.fromarray(tile)\<close>, \<^verbatim>\<open>save(..., format='PNG')\<close>,
  \<^verbatim>\<open>getvalue()\<close>: an external library that either raises or returns the encoded
  bytes), and the setting \<^verbatim>\<open>settings.PREFETCH_ADJACENT_Z\<close>. The module
  \<^verbatim>\<open>settings\<close> is not part of the sources, so its values are fields here.
\<close>

record materializer =
  tile_server :: server
  png_encode :: "ndarray \<Rightarrow> pyexn + bytes"
  PREFETCH_ADJACENT_Z :: int

definition tile_key :: "int \<Rightarrow> int \<Rightarrow> int \<Rightarrow> int \<Rightarrow> string" where
  "tile_key zoom z row col =
     ''/'' @ str_int zoom @ ''/'' @ str_int z @ ''/'' @ str_int row @ ''/'' @ str_int col @ ''.png''"

text \<open>
  \<^verbatim>\<open>make_my_tile(zoom, z, row, col)\<close>: return at once when the key exists; otherwise
  extract, encode and store. Whatever is raised inside the \<^verbatim>\<open>try\<close> is printed and
  raised again as \<^verbatim>\<open>Exception(e)\<close>.
\<close>

definition make_my_tile ::
  "materializer \<Rightarrow> world \<Rightarrow> int \<Rightarrow> int \<Rightarrow> int \<Rightarrow> int \<Rightarrow> (pyexn + unit) \<times> world" where
  "make_my_tile m w zoom z row col =
     (let key = tile_key zoom z row col;
          w0 = emit (CacheExists key) w
      in if cache w key \<noteq> None then (Inr (), w0)
         else
           (case get_2d_tile (tile_server m) col row z zoom w0 of
              (Inl e, w1) \<Rightarrow> (Inl (Exception e), w1)
            | (Inr tile, w1) \<Rightarrow>
                let w2 = emit ImageEncode w1
                in (case png_encode m tile of
                      Inl e \<Rightarrow> (Inl (Exception e), w2)
                    | Inr img \<Rightarrow>
                        (Inr (), emit (CacheSet key img) (w2\<lparr>cache := (cache w2)(key \<mapsto> img)\<rparr>)))))"

text \<open>
  What a request handler raises: an \<^verbatim>\<open>HTTPException(status_code, detail)\<close>, or any
  other exception, which the handler does not catch.
\<close>

datatype handler_exn =
    HTTPException nat string
  | Unhandled pyexn

text \<open>
  A background task is \<^verbatim>\<open>make_my_tile\<close> with its arguments
  \<^verbatim>\<open>(zoom, z, row, col)\<close>, as \<^verbatim>\<open>background_tasks.add_task\<close> records it.
\<close>

type_synonym task = "int \<times> int \<times> int \<times> int"

definition prefetch_tasks :: "int \<Rightarrow> int \<Rightarrow> int \<Rightarrow> int \<Rightarrow> int \<Rightarrow> task list" where
  "prefetch_tasks n zoom z row col =
     concat (map (\<lambda>i. [(zoom, z + i, row, col), (zoom, z - i, row, col)]) [0..n - 1])"

text \<open>
  \<^verbatim>\<open>make_tile(row, col, z, zoom, background_tasks)\<close>: the result of the handler, the
  world after it, and the tasks it has added. \<^verbatim>\<open>range(n)\<close> is \<open>[0..n - 1]\<close>. The
  branch on \<^verbatim>\<open>PREFETCH_HIGHERRES_SCALE_INDEX\<close> is \<^verbatim>\<open>pass\<close>.
\<close>

definition make_tile ::
  "materializer \<Rightarrow> world \<Rightarrow> int \<Rightarrow> int \<Rightarrow> int \<Rightarrow> int \<Rightarrow> (handler_exn + unit) \<times> world \<times> task list" where
  "make_tile m w row col z zoom =
     (case make_my_tile m w zoom z row col of
        (Inl e, w1) \<Rightarrow> (Inl (HTTPException 404 (str_exn e)), w1, [])
      | (Inr u, w1) \<Rightarrow>
          (Inr (), w1,
           if PREFETCH_ADJACENT_Z m > 0
           then prefetch_tasks (PREFETCH_ADJACENT_Z m) zoom z row col
           else []))"

fun run_task :: "materializer \<Rightarrow> world \<Rightarrow> task \<Rightarrow> (pyexn + unit) \<times> world" where
  "run_task m w (zoom, z, row, col) = make_my_tile m w zoom z row col"

text \<open>
  The web framework runs the added tasks once the response has been sent, by
  \<^verbatim>\<open>for task in self.tasks: await task()\<close>: in order, and with no handler around the
  call, so that the first task that raises ends the loop. The result is the exception
  that ended the loop, if any, and the world after the tasks that ran.
\<close>

fun run_background_tasks :: "materializer \<Rightarrow> world \<Rightarrow> task list \<Rightarrow> pyexn option \<times> world" where
  "run_background_tasks m w [] = (None, w)"
| "run_background_tasks m w (t # ts) =
     (case run_task m w t of
        (Inl e, w1) \<Rightarrow> (Some e, w1)
      | (Inr u, w1) \<Rightarrow> run_background_tasks m w1 ts)"

section \<open>Requests and responses\<close>

datatype json =
    JNull
  | JInt int
  | JStr string
  | JList "json list"
  | JObj "(string \<times> json) list"

datatype body =
    JsonBody json
  | TextBody string
  | StreamBody bytes

record response =
  status :: nat
  media_type :: string
  body :: body

definition json_response :: "json \<Rightarrow> response" where
  "json_response j = \<lparr>status = 200, media_type = ''application/json'', body = JsonBody j\<rparr>"

text \<open>
  What the web framework sends for the outcome of a handler: the handler's response, the
  status and \<^verbatim>\<open>{"detail": ...}\<close> of an \<^verbatim>\<open>HTTPException\<close>, and for any other
  exception the plain text \<^verbatim>\<open>Internal Server Error\<close> with status 500.
\<close>

definition send :: "handler_exn + response \<Rightarrow> response" where
  "send r =
     (case r of
        Inr resp \<Rightarrow> resp
      | Inl (HTTPException st detail) \<Rightarrow>
          \<lparr>status = st, media_type = ''application/json'',
           body = JsonBody (JObj [(''detail'', JStr detail)])\<rparr>
      | Inl (Unhandled e) \<Rightarrow>
          \<lparr>status = 500, media_type = ''text/plain; charset=utf-8'',
           body = TextBody ''Internal Server Error''\<rparr>)"

text \<open>
  \<^verbatim>\<open>requests.get(url).json()\<close> on the client side: \<^verbatim>\<open>requests.get\<close> does not raise
  on an error status; \<^verbatim>\<open>.json()\<close> parses the body and raises when it is not JSON.
\<close>

definition response_json :: "response \<Rightarrow> pyexn + json" where
  "response_json resp =
     (case body resp of
        JsonBody j \<Rightarrow> Inr j
      | _ \<Rightarrow> Inl (LibraryError ''JSONDecodeError''))"

text \<open>
  The endpoint \<^verbatim>\<open>/make_tile/{zoom}/{z}/{row}/{col}.png\<close> as a client sees it: the
  response to the handler's outcome (a handler that returns \<^verbatim>\<open>None\<close> answers
  \<^verbatim>\<open>null\<close>), and the world once the background tasks have run. The response is
  computed from the handler's outcome alone: the tasks start after it has been sent.
\<close>

definition serve_make_tile ::
  "materializer \<Rightarrow> world \<Rightarrow> int \<Rightarrow> int \<Rightarrow> int \<Rightarrow> int \<Rightarrow> response \<times> world" where
  "serve_make_tile m w row col z zoom =
     (case make_tile m w row col z zoom of
        (res, w1, tasks) \<Rightarrow>
          (send (map_sum id (\<lambda>u. json_response JNull) res),
           snd (run_background_tasks m w1 tasks)))"

text \<open>\<^verbatim>\<open>volume_info(zoom)\<close> of the materializer.\<close>

definition volume_info :: "server \<Rightarrow> int \<Rightarrow> handler_exn + json" where
  "volume_info srv zoom =
     (case shapes srv zoom of
        None \<Rightarrow> Inl (Unhandled (KeyError zoom))
      | Some (sx, sy, sz) \<Rightarrow>
          (case dtypes srv zoom of
             None \<Rightarrow> Inl (Unhandled (KeyError zoom))
           | Some d \<Rightarrow>
               Inr (JObj [(''shape'', JList [JInt sx, JInt sy, JInt sz]),
                          (''dtype'', JStr d),
                          (''tile_size'', JInt (tile_size srv))])))"

definition serve_volume_info :: "server \<Rightarrow> int \<Rightarrow> response" where
  "serve_volume_info srv zoom = send (map_sum id json_response (volume_info srv zoom))"

section \<open>The edge: \<^verbatim>\<open>tile_server.py\<close>\<close>

text \<open>\<^verbatim>\<open>io.BytesIO(img_bytes)\<close>: \<^verbatim>\<open>r.get\<close> gives \<^verbatim>\<open>None\<close> for a missing key, and
  \<^verbatim>\<open>io.BytesIO(None)\<close> is the empty buffer.\<close>

definition BytesIO :: "bytes option \<Rightarrow> bytes" where
  "BytesIO b = (case b of None \<Rightarrow> [] | Some bs \<Rightarrow> bs)"

text \<open>
  \<^verbatim>\<open>get_tile(row, col, z, zoom)\<close>: ask the materializer, drop the parsed answer, read
  the key from the cache and stream it.
\<close>

definition get_tile ::
  "materializer \<Rightarrow> world \<Rightarrow> int \<Rightarrow> int \<Rightarrow> int \<Rightarrow> int \<Rightarrow> (handler_exn + response) \<times> world" where
  "get_tile m w row col z zoom =
     (let k = tile_key zoom z row col
      in case serve_make_tile m w row col z zoom of
           (resp, w1) \<Rightarrow>
             (case response_json resp of
                Inl e \<Rightarrow> (Inl (Unhandled e), w1)
              | Inr j \<Rightarrow>
                  let img_bytes = cache w1 k;
                      w2 = emit (CacheGet k) w1
                  in (Inr \<lparr>status = 200, media_type = ''image/png'',
                           body = StreamBody (BytesIO img_bytes)\<rparr>, w2)))"

definition serve_tile ::
  "materializer \<Rightarrow> world \<Rightarrow> int \<Rightarrow> int \<Rightarrow> int \<Rightarrow> int \<Rightarrow> response \<times> world" where
  "serve_tile m w row col z zoom =
     (case get_tile m w row col z zoom of (res, w1) \<Rightarrow> (send res, w1))"

text \<open>\<^verbatim>\<open>get_volume_info(zoom)\<close>: the parsed answer of the materializer's
  \<^verbatim>\<open>volume_info\<close>, returned as it is.\<close>

definition get_volume_info :: "server \<Rightarrow> int \<Rightarrow> handler_exn + response" where
  "get_volume_info srv zoom =
     (case response_json (serve_volume_info srv zoom) of
        Inl e \<Rightarrow> Inl (Unhandled e)
      | Inr j \<Rightarrow> Inr (json_response j))"

definition serve_get_volume_info :: "server \<Rightarrow> int \<Rightarrow> response" where
  "serve_get_volume_info srv zoom = send (get_volume_info srv zoom)"

section \<open>A small deployment for concrete runs\<close>

text \<open>
  One zoom level, 0, of shape \<open>(5, 4, 3)\<close> with 8-bit values, tiles of size 2: along x the
  last tile is cut by the edge of the volume, along y the volume ends exactly at a tile
  boundary. The codec of the example accepts 8-bit arrays only, as an image library
  refuses element types it has no image mode for, and writes the two dimensions followed
  by the pixels.
\<close>

definition example_volume :: volume where
  "example_volume = \<lparr>vshape = (5, 4, 3), vdtype = ''uint8'', voxel = (\<lambda>x y z. x + 5 * y + 20 * z)\<rparr>"

definition float_volume :: volume where
  "float_volume = \<lparr>vshape = (5, 4, 3), vdtype = ''float32'', voxel = (\<lambda>x y z. x + 5 * y + 20 * z)\<rparr>"

definition example_codec :: "ndarray \<Rightarrow> pyexn + bytes" where
  "example_codec a =
     (if dtype a = ''uint8''
      then Inr (of_nat (fst (shape a)) # of_nat (snd (shape a)) # map word_of_int (concat (rows a)))
      else Inl (LibraryError ''cannot write this data type as PNG''))"

definition example_server :: server where
  "example_server = \<lparr>dataset_3d = [0 \<mapsto> example_volume, 1 \<mapsto> float_volume], tile_size = 2\<rparr>"

definition example_materializer :: "int \<Rightarrow> materializer" where
  "example_materializer n =
     \<lparr>tile_server = example_server, png_encode = example_codec, PREFETCH_ADJACENT_Z = n\<rparr>"

definition empty_world :: world where
  "empty_world = \<lparr>cache = Map.empty, trace = []\<rparr>"

section \<open>Evaluation and basic facts\<close>

lemmas example_defs =
  example_materializer_def example_server_def example_volume_def float_volume_def
  example_codec_def empty_world_def

lemmas str_defs =
  tile_key_def str_int_def str_nat.simps digit_char_def
  z_bounds_msg_def x_bounds_msg_def y_bounds_msg_def

text \<open>Extraction never touches the cache, and its result does not depend on the world.\<close>

lemma get_2d_tile_cache: "cache (snd (get_2d_tile srv col row z zoom w)) = cache w"
  by (simp add: get_2d_tile_def emit_def Let_def split: option.splits prod.splits sum.splits)

lemma get_2d_tile_result_indep:
  "fst (get_2d_tile srv col row z zoom w) = fst (get_2d_tile srv col row z zoom w')"
  by (simp add: get_2d_tile_def Let_def split: option.splits prod.splits sum.splits)

section \<open>Tiles whose start corner lies beyond the volume\<close>

text \<open>
  Claim C1 says that for a start corner beyond the volume (\<open>col * tileSize > shape.x\<close> or
  \<open>row * tileSize > shape.y\<close>) \<^verbatim>\<open>get_2d_tile\<close> returns an all-zero 8-bit tile of
  \<open>tileSize \<times> tileSize\<close> without an error, and that \<^verbatim>\<open>make_my_tile\<close> writes nothing
  to the cache for that key. The first half holds. The second does not:
  \<^verbatim>\<open>make_my_tile\<close> treats the black tile like any other tile, so on a cache miss it is
  encoded and stored. On the example deployment the tile at column 3 starts at x = 6,
  beyond the width 5, and the key is written.
\<close>

theorem black_tile_write_counterexample:
  "3 * tile_size example_server > 5
   \<and> cache empty_world ''/0/1/0/3.png'' = None
   \<and> fst (make_my_tile (example_materializer 0) empty_world 0 1 0 3) = Inr ()
   \<and> cache (snd (make_my_tile (example_materializer 0) empty_world 0 1 0 3)) ''/0/1/0/3.png''
       = Some [2, 2, 0, 0, 0, 0]
   \<and> trace (snd (make_my_tile (example_materializer 0) empty_world 0 1 0 3))
       = [CacheExists ''/0/1/0/3.png'', ImageEncode, CacheSet ''/0/1/0/3.png'' [2, 2, 0, 0, 0, 0]]"
  by code_simp

text \<open>
  Claim C1 as amended: for a configured zoom, a start corner beyond the volume and a
  non-negative tile size, \<^verbatim>\<open>get_2d_tile\<close> returns the all-zero \<^verbatim>\<open>uint8\<close> tile of
  \<open>tileSize \<times> tileSize\<close>, raises nothing and performs no effect; and
  \<^verbatim>\<open>make_my_tile\<close>, when the key is absent and the codec encodes that tile, succeeds
  and stores the encoded black tile under the key (one existence check, one encoding, one
  write, no volume read).
\<close>

theorem black_tile_is_cached:
  assumes shp: "shapes (tile_server m) zoom = Some (sx, sy, sz)"
    and outside: "col * tile_size (tile_server m) > sx \<or> row * tile_size (tile_server m) > sy"
    and ts: "0 \<le> tile_size (tile_server m)"
  shows "get_2d_tile (tile_server m) col row z zoom w =
           (Inr \<lparr>shape = (nat (tile_size (tile_server m)), nat (tile_size (tile_server m))),
                 dtype = ''uint8'',
                 rows = replicate (nat (tile_size (tile_server m)))
                          (replicate (nat (tile_size (tile_server m))) 0)\<rparr>, w)
         \<and> (cache w (tile_key zoom z row col) = None \<longrightarrow>
              (\<forall>img. png_encode m \<lparr>shape = (nat (tile_size (tile_server m)), nat (tile_size (tile_server m))),
                                   dtype = ''uint8'',
                                   rows = replicate (nat (tile_size (tile_server m)))
                                            (replicate (nat (tile_size (tile_server m))) 0)\<rparr> = Inr img \<longrightarrow>
                 fst (make_my_tile m w zoom z row col) = Inr ()
                 \<and> cache (snd (make_my_tile m w zoom z row col)) = (cache w)(tile_key zoom z row col \<mapsto> img)
                 \<and> trace (snd (make_my_tile m w zoom z row col)) =
                     trace w @ [CacheExists (tile_key zoom z row col), ImageEncode,
                                CacheSet (tile_key zoom z row col) img]))"
proof -
  let ?blank = "\<lparr>shape = (nat (tile_size (tile_server m)), nat (tile_size (tile_server m))),
                 dtype = ''uint8'',
                 rows = replicate (nat (tile_size (tile_server m)))
                          (replicate (nat (tile_size (tile_server m))) 0)\<rparr>"
  have g: "get_2d_tile (tile_server m) col row z zoom w' = (Inr ?blank, w')" for w'
    using shp outside ts by (auto simp add: get_2d_tile_def np_zeros_def Let_def)
  show ?thesis
    using g by (simp add: make_my_tile_def emit_def Let_def)
qed

theorem black_tile_is_cached_witness:
  "get_2d_tile example_server 3 0 1 0 empty_world =
     (Inr \<lparr>shape = (2, 2), dtype = ''uint8'', rows = [[0, 0], [0, 0]]\<rparr>, empty_world)
   \<and> cache (snd (make_my_tile (example_materializer 0) empty_world 0 1 0 3)) ''/0/1/0/3.png''
       = Some [2, 2, 0, 0, 0, 0]"
  using black_tile_is_cached [where m = "example_materializer 0" and zoom = 0 and sx = 5 and sy = 4
      and sz = 3 and col = 3 and row = 0 and z = 1 and w = empty_world]
  by (simp add: example_defs str_defs shapes_def eval_nat_numeral)

section \<open>A slice outside the volume\<close>

text \<open>
  Claim C2 says that for z outside \<open>[0, shape.z)\<close>, and for all values of row and col,
  extraction fails with an out-of-bounds error that refers to z and \<open>shape.z\<close>. The
  black-tile test comes before the z test in \<^verbatim>\<open>get_2d_tile\<close>, so for a start corner
  beyond the volume the call returns the black tile whatever z is: on the example
  deployment, z = 20 with column 3 raises nothing.
\<close>

theorem z_out_of_bounds_black_counterexample:
  "shapes example_server 0 = Some (5, 4, 3)
   \<and> \<not> (0 \<le> (20::int) \<and> (20::int) < 3)
   \<and> get_2d_tile example_server 3 0 20 0 empty_world =
       (Inr \<lparr>shape = (2, 2), dtype = ''uint8'', rows = [[0, 0], [0, 0]]\<rparr>, empty_world)"
  by (simp add: example_defs shapes_def get_2d_tile_def np_zeros_def eval_nat_numeral)

text \<open>
  Claim C2 as amended: for a configured zoom, z outside \<open>[0, shape.z)\<close> and a start corner
  not beyond the volume (\<open>col * tileSize \<le> shape.x\<close> and \<open>row * tileSize \<le> shape.y\<close>),
  \<^verbatim>\<open>get_2d_tile\<close> raises \<open>ValueError\<close> with the message
  \<^verbatim>\<open>Tile out of z bounds: Request {z} for [0,{shape.z}]\<close>, and performs no effect.
\<close>

theorem z_out_of_bounds:
  assumes shp: "shapes srv zoom = Some (sx, sy, sz)"
    and zout: "z < 0 \<or> sz \<le> z"
    and x: "col * tile_size srv \<le> sx"
    and y: "row * tile_size srv \<le> sy"
  shows "get_2d_tile srv col row z zoom w =
           (Inl (ValueError (''Tile out of z bounds: Request '' @ str_int z
                              @ '' for [0,'' @ str_int sz @ '']'')), w)"
  using assms by (auto simp add: get_2d_tile_def z_bounds_msg_def Let_def)

theorem z_out_of_bounds_witness:
  "get_2d_tile example_server 2 2 20 0 empty_world =
     (Inl (ValueError ''Tile out of z bounds: Request 20 for [0,3]''), empty_world)
   \<and> get_2d_tile example_server 0 0 (- 1) 0 empty_world =
     (Inl (ValueError ''Tile out of z bounds: Request -1 for [0,3]''), empty_world)"
  using z_out_of_bounds [where srv = example_server and zoom = 0 and sx = 5 and sy = 4 and sz = 3
      and z = 20 and col = 2 and row = 2 and w = empty_world]
    z_out_of_bounds [where srv = example_server and zoom = 0 and sx = 5 and sy = 4 and sz = 3
      and z = "- 1" and col = 0 and row = 0 and w = empty_world]
  by (simp add: example_defs str_defs shapes_def)

section \<open>A tile that starts inside the volume\<close>

lemma read_region_ok:
  assumes "vshape vol = (sx, sy, sz)"
    and "0 \<le> start_x" "start_x \<le> end_x" "end_x \<le> sx"
    and "0 \<le> start_y" "start_y \<le> end_y" "end_y \<le> sy"
    and "0 \<le> z" "z < sz"
  shows "read_region vol start_x end_x start_y end_y z =
     Inr \<lparr>shape = (nat (end_x - start_x), nat (end_y - start_y)), dtype = vdtype vol,
          rows = map (\<lambda>i. map (\<lambda>j. voxel vol (start_x + int i) (start_y + int j) z)
                             [0..<nat (end_y - start_y)])
                     [0..<nat (end_x - start_x)]\<rparr>"
  using assms by (simp add: read_region_def)

lemma T_read_pixel:
  assumes "r < ny" "c < nx"
  shows "rows (T \<lparr>shape = (nx, ny), dtype = d,
                   rows = map (\<lambda>i. map (\<lambda>j. f i j) [0..<ny]) [0..<nx]\<rparr>) ! r ! c = f c r"
  using assms by (simp add: T_def)

text \<open>
  Claim C3: for a tile address (non-negative row and col, a configured zoom, a positive
  tile size) with \<open>startX = col * tileSize < shape.x\<close>, \<open>startY = row * tileSize < shape.y\<close>
  and z in \<open>[0, shape.z)\<close>, \<^verbatim>\<open>get_2d_tile\<close> returns a tile of
  \<open>min(tileSize, shape.y - startY)\<close> rows and \<open>min(tileSize, shape.x - startX)\<close> columns
  whose pixel at \<open>(r, c)\<close> is the volume's value at \<open>(startX + c, startY + r, z)\<close>.
\<close>

theorem tile_inside_volume:
  assumes vol: "dataset_3d srv zoom = Some vol"
    and shp: "vshape vol = (sx, sy, sz)"
    and nonneg: "0 \<le> col" "0 \<le> row"
    and ts: "0 < tile_size srv"
    and x: "col * tile_size srv < sx"
    and y: "row * tile_size srv < sy"
    and z: "0 \<le> z" "z < sz"
  shows "\<exists>tile. fst (get_2d_tile srv col row z zoom w) = Inr tile
           \<and> int (fst (shape tile)) = min (tile_size srv) (sy - row * tile_size srv)
           \<and> int (snd (shape tile)) = min (tile_size srv) (sx - col * tile_size srv)
           \<and> length (rows tile) = fst (shape tile)
           \<and> (\<forall>r < fst (shape tile). length (rows tile ! r) = snd (shape tile)
                 \<and> (\<forall>c < snd (shape tile).
                       rows tile ! r ! c
                         = voxel vol (col * tile_size srv + int c) (row * tile_size srv + int r) z))"
proof -
  let ?t = "tile_size srv"
  let ?x0 = "col * ?t" and ?y0 = "row * ?t"
  let ?x1 = "min (?x0 + ?t) sx" and ?y1 = "min (?y0 + ?t) sy"
  define nx where "nx = nat (?x1 - ?x0)"
  define ny where "ny = nat (?y1 - ?y0)"
  define f where "f = (\<lambda>i j. voxel vol (?x0 + int i) (?y0 + int j) z)"
  define tile where
    "tile = T \<lparr>shape = (nx, ny), dtype = vdtype vol,
                rows = map (\<lambda>i. map (\<lambda>j. f i j) [0..<ny]) [0..<nx]\<rparr>"
  have x0: "0 \<le> ?x0" and y0: "0 \<le> ?y0" using nonneg ts by simp_all
  have rd: "read_region vol ?x0 ?x1 ?y0 ?y1 z =
     Inr \<lparr>shape = (nx, ny), dtype = vdtype vol,
          rows = map (\<lambda>i. map (\<lambda>j. f i j) [0..<ny]) [0..<nx]\<rparr>"
    unfolding nx_def ny_def f_def
    using x0 y0 ts x y z by (intro read_region_ok [OF shp]) auto
  have g: "fst (get_2d_tile srv col row z zoom w) = Inr tile"
    using vol shp x y z rd by (simp add: get_2d_tile_def shapes_def Let_def tile_def)
  have dx: "int nx = min ?t (sx - ?x0)" using x ts by (simp add: nx_def)
  have dy: "int ny = min ?t (sy - ?y0)" using y ts by (simp add: ny_def)
  have sh: "shape tile = (ny, nx)" by (simp add: tile_def T_def)
  have len: "length (rows tile) = ny" by (simp add: tile_def T_def)
  have px: "length (rows tile ! r) = nx \<and> (\<forall>c < nx. rows tile ! r ! c = f c r)"
    if "r < ny" for r
    using that by (simp add: tile_def T_def)
  show ?thesis
  proof (intro exI [of _ tile] conjI)
    show "fst (get_2d_tile srv col row z zoom w) = Inr tile" by (rule g)
    show "int (fst (shape tile)) = min ?t (sy - ?y0)" using dy by (simp add: sh)
    show "int (snd (shape tile)) = min ?t (sx - ?x0)" using dx by (simp add: sh)
    show "length (rows tile) = fst (shape tile)" by (simp add: sh len)
    show "\<forall>r < fst (shape tile). length (rows tile ! r) = snd (shape tile)
            \<and> (\<forall>c < snd (shape tile).
                  rows tile ! r ! c = voxel vol (?x0 + int c) (?y0 + int r) z)"
      using px by (simp add: sh f_def)
  qed
qed

theorem tile_inside_volume_witness:
  "fst (get_2d_tile example_server 2 1 1 0 empty_world)
     = Inr \<lparr>shape = (2, 1), dtype = ''uint8'', rows = [[34], [39]]\<rparr>
   \<and> (\<exists>tile. fst (get_2d_tile example_server 2 1 1 0 empty_world) = Inr tile
         \<and> int (fst (shape tile)) = 2 \<and> int (snd (shape tile)) = 1
         \<and> rows tile ! 0 ! 0 = voxel example_volume 4 2 1
         \<and> rows tile ! 1 ! 0 = voxel example_volume 4 3 1)"
proof -
  have ev: "fst (get_2d_tile example_server 2 1 1 0 empty_world)
     = Inr \<lparr>shape = (2, 1), dtype = ''uint8'', rows = [[34], [39]]\<rparr>"
    by code_simp
  from tile_inside_volume [where srv = example_server and zoom = 0 and vol = example_volume
      and sx = 5 and sy = 4 and sz = 3 and col = 2 and row = 1 and z = 1 and w = empty_world]
  obtain tile where t: "fst (get_2d_tile example_server 2 1 1 0 empty_world) = Inr tile"
    "int (fst (shape tile)) = 2" "int (snd (shape tile)) = 1"
    "\<forall>r < fst (shape tile). length (rows tile ! r) = snd (shape tile)
        \<and> (\<forall>c < snd (shape tile). rows tile ! r ! c = voxel example_volume (4 + int c) (2 + int r) 1)"
    by (auto simp add: example_defs)
  from t(2,3,4) have "rows tile ! 0 ! 0 = voxel example_volume 4 2 1"
    "rows tile ! 1 ! 0 = voxel example_volume 4 3 1"
    by auto
  with t ev show ?thesis by blast
qed

section \<open>The cache-aside protocol\<close>

lemma make_my_tile_hit:
  "cache w (tile_key zoom z row col) \<noteq> None \<Longrightarrow>
     make_my_tile m w zoom z row col = (Inr (), emit (CacheExists (tile_key zoom z row col)) w)"
  by (simp add: make_my_tile_def Let_def)

lemma make_my_tile_miss:
  "cache w (tile_key zoom z row col) = None \<Longrightarrow>
     make_my_tile m w zoom z row col =
       (case get_2d_tile (tile_server m) col row z zoom (emit (CacheExists (tile_key zoom z row col)) w) of
          (Inl e, w1) \<Rightarrow> (Inl (Exception e), w1)
        | (Inr tile, w1) \<Rightarrow>
            (case png_encode m tile of
               Inl e \<Rightarrow> (Inl (Exception e), emit ImageEncode w1)
             | Inr img \<Rightarrow>
                 (Inr (), emit (CacheSet (tile_key zoom z row col) img)
                            ((emit ImageEncode w1)\<lparr>cache := (cache (emit ImageEncode w1))(tile_key zoom z row col \<mapsto> img)\<rparr>))))"
  by (simp add: make_my_tile_def Let_def split: prod.splits sum.splits)

lemma cache_emit [simp]: "cache (emit ev w) = cache w"
  by (simp add: emit_def)

lemma trace_emit [simp]: "trace (emit ev w) = trace w @ [ev]"
  by (simp add: emit_def)

lemma make_my_tile_error_cache:
  assumes "fst (make_my_tile m w zoom z row col) = Inl e"
  shows "cache (snd (make_my_tile m w zoom z row col)) = cache w"
proof (cases "cache w (tile_key zoom z row col) = None")
  case True
  obtain r w1 where g: "get_2d_tile (tile_server m) col row z zoom
      (emit (CacheExists (tile_key zoom z row col)) w) = (r, w1)"
    by (cases "get_2d_tile (tile_server m) col row z zoom (emit (CacheExists (tile_key zoom z row col)) w)")
  have c1: "cache w1 = cache w"
    using get_2d_tile_cache [of "tile_server m" col row z zoom "emit (CacheExists (tile_key zoom z row col)) w"]
    by (simp add: g)
  show ?thesis
    using assms c1 by (simp add: make_my_tile_miss [OF True] g split: sum.splits)
next
  case False
  then show ?thesis using assms by (simp add: make_my_tile_hit)
qed

lemma make_my_tile_ok_present:
  assumes "fst (make_my_tile m w zoom z row col) = Inr u"
  shows "cache (snd (make_my_tile m w zoom z row col)) (tile_key zoom z row col) \<noteq> None"
proof (cases "cache w (tile_key zoom z row col) = None")
  case True
  then show ?thesis
    using assms by (simp add: make_my_tile_miss [OF True] split: prod.splits sum.splits)
next
  case False
  then show ?thesis by (simp add: make_my_tile_hit)
qed

lemma make_my_tile_result_indep:
  assumes "cache w = cache w'"
  shows "fst (make_my_tile m w zoom z row col) = fst (make_my_tile m w' zoom z row col)"
proof -
  let ?k = "tile_key zoom z row col"
  have "fst (get_2d_tile (tile_server m) col row z zoom (emit (CacheExists ?k) w))
      = fst (get_2d_tile (tile_server m) col row z zoom (emit (CacheExists ?k) w'))"
    by (rule get_2d_tile_result_indep)
  then show ?thesis
    using assms
    by (cases "get_2d_tile (tile_server m) col row z zoom (emit (CacheExists ?k) w)";
        cases "get_2d_tile (tile_server m) col row z zoom (emit (CacheExists ?k) w')")
       (auto simp add: make_my_tile_def Let_def split: sum.splits)
qed

lemma get_2d_tile_effects:
  "\<exists>evs. \<forall>w. snd (get_2d_tile srv col row z zoom w) = w\<lparr>trace := trace w @ evs\<rparr>"
proof -
  have "snd (get_2d_tile srv col row z zoom w)
      = w\<lparr>trace := trace w @ trace (snd (get_2d_tile srv col row z zoom \<lparr>cache = Map.empty, trace = []\<rparr>))\<rparr>"
    for w
    by (simp add: get_2d_tile_def emit_def Let_def split: option.splits prod.splits sum.splits)
  then show ?thesis by blast
qed

lemma make_my_tile_effects_indep:
  assumes "cache w = cache w'"
  shows "\<exists>evs. trace (snd (make_my_tile m w zoom z row col)) = trace w @ evs
             \<and> trace (snd (make_my_tile m w' zoom z row col)) = trace w' @ evs"
proof -
  let ?k = "tile_key zoom z row col"
  obtain evs where ev: "\<And>v. snd (get_2d_tile (tile_server m) col row z zoom v) = v\<lparr>trace := trace v @ evs\<rparr>"
    using get_2d_tile_effects [of "tile_server m" col row z zoom] by blast
  have fs: "fst (get_2d_tile (tile_server m) col row z zoom (emit (CacheExists ?k) w'))
      = fst (get_2d_tile (tile_server m) col row z zoom (emit (CacheExists ?k) w))"
    by (rule get_2d_tile_result_indep)
  obtain r where g: "get_2d_tile (tile_server m) col row z zoom (emit (CacheExists ?k) w)
      = (r, (emit (CacheExists ?k) w)\<lparr>trace := trace (emit (CacheExists ?k) w) @ evs\<rparr>)"
    using ev [of "emit (CacheExists ?k) w"]
    by (cases "get_2d_tile (tile_server m) col row z zoom (emit (CacheExists ?k) w)") simp
  have g': "get_2d_tile (tile_server m) col row z zoom (emit (CacheExists ?k) w')
      = (r, (emit (CacheExists ?k) w')\<lparr>trace := trace (emit (CacheExists ?k) w') @ evs\<rparr>)"
    using ev [of "emit (CacheExists ?k) w'"] fs g
    by (cases "get_2d_tile (tile_server m) col row z zoom (emit (CacheExists ?k) w')") simp
  show ?thesis
  proof (cases "cache w ?k = None")
    case True
    then have True': "cache w' ?k = None" using assms by simp
    show ?thesis
      by (cases r; cases "png_encode m (projr r)")
         (simp_all add: make_my_tile_miss [OF True] make_my_tile_miss [OF True'] g g')
  next
    case False
    then have False': "cache w' ?k \<noteq> None" using assms by simp
    show ?thesis
      by (simp add: make_my_tile_hit [OF False] make_my_tile_hit [OF False'])
  qed
qed

text \<open>
  Claim C4 says that calling \<^verbatim>\<open>make_my_tile\<close> twice in sequence for the same address
  leaves identical bytes under the address's key, and that the second call performs no
  volume read because it returns on the existence of the key. The key exists only when
  the first call has stored it. On the example deployment the volume of zoom 1 has an
  element type the codec refuses: the first call reads the volume, fails in the codec
  and stores nothing, and the second call reads the volume and calls the codec again.
\<close>

theorem second_call_reads_again_counterexample:
  "fst (make_my_tile (example_materializer 0) empty_world 1 1 0 0)
     = Inl (Exception (LibraryError ''cannot write this data type as PNG''))
   \<and> trace (snd (make_my_tile (example_materializer 0) empty_world 1 1 0 0))
     = [CacheExists ''/1/1/0/0.png'', VolumeRead 1 0 2 0 2 1, ImageEncode]
   \<and> fst (make_my_tile (example_materializer 0)
            (snd (make_my_tile (example_materializer 0) empty_world 1 1 0 0)) 1 1 0 0)
     = Inl (Exception (LibraryError ''cannot write this data type as PNG''))
   \<and> trace (snd (make_my_tile (example_materializer 0)
            (snd (make_my_tile (example_materializer 0) empty_world 1 1 0 0)) 1 1 0 0))
     = [CacheExists ''/1/1/0/0.png'', VolumeRead 1 0 2 0 2 1, ImageEncode,
        CacheExists ''/1/1/0/0.png'', VolumeRead 1 0 2 0 2 1, ImageEncode]
   \<and> cache (snd (make_my_tile (example_materializer 0)
            (snd (make_my_tile (example_materializer 0) empty_world 1 1 0 0)) 1 1 0 0))
          ''/1/1/0/0.png'' = None"
  by code_simp

text \<open>
  Claim C4 as amended: calling \<^verbatim>\<open>make_my_tile\<close> twice in sequence for the same
  address leaves, after the second call, the cache as the first call left it; when the
  first call succeeds, the second call succeeds with the existence check on the key as
  its only effect (no volume read, no encoding, no write); when the first call fails, the
  second call fails with the same error and repeats the effects of the first, so it
  reads the volume exactly when the first call did.
\<close>

theorem make_my_tile_twice:
  "cache (snd (make_my_tile m (snd (make_my_tile m w zoom z row col)) zoom z row col))
     = cache (snd (make_my_tile m w zoom z row col))
   \<and> (fst (make_my_tile m w zoom z row col) = Inr () \<longrightarrow>
        make_my_tile m (snd (make_my_tile m w zoom z row col)) zoom z row col
          = (Inr (), emit (CacheExists (tile_key zoom z row col)) (snd (make_my_tile m w zoom z row col))))
   \<and> (\<forall>e. fst (make_my_tile m w zoom z row col) = Inl e \<longrightarrow>
        fst (make_my_tile m (snd (make_my_tile m w zoom z row col)) zoom z row col) = Inl e
        \<and> (\<exists>evs. trace (snd (make_my_tile m w zoom z row col)) = trace w @ evs
               \<and> trace (snd (make_my_tile m (snd (make_my_tile m w zoom z row col)) zoom z row col))
                   = trace (snd (make_my_tile m w zoom z row col)) @ evs))"
proof -
  let ?first = "make_my_tile m w zoom z row col"
  let ?w1 = "snd ?first"
  have ok: "make_my_tile m ?w1 zoom z row col = (Inr (), emit (CacheExists (tile_key zoom z row col)) ?w1)"
    if "fst ?first = Inr ()"
    using make_my_tile_ok_present [OF that] by (rule make_my_tile_hit)
  have again: "fst (make_my_tile m ?w1 zoom z row col) = Inl e
        \<and> (\<exists>evs. trace ?w1 = trace w @ evs
               \<and> trace (snd (make_my_tile m ?w1 zoom z row col)) = trace ?w1 @ evs)"
    if err: "fst ?first = Inl e" for e
  proof -
    have c: "cache w = cache ?w1" using make_my_tile_error_cache [OF err] by simp
    have "fst (make_my_tile m ?w1 zoom z row col) = Inl e"
      using make_my_tile_result_indep [of ?w1 w m zoom z row col] c err by simp
    with make_my_tile_effects_indep [OF c, of m zoom z row col] show ?thesis by simp
  qed
  have same: "cache (snd (make_my_tile m ?w1 zoom z row col)) = cache ?w1"
  proof (cases "fst ?first")
    case (Inl e)
    from again [OF Inl] have "fst (make_my_tile m ?w1 zoom z row col) = Inl e" by simp
    then show ?thesis by (rule make_my_tile_error_cache)
  next
    case (Inr u)
    then show ?thesis using ok by simp
  qed
  from same ok again show ?thesis by blast
qed

theorem make_my_tile_twice_witness:
  "fst (make_my_tile (example_materializer 0) empty_world 0 1 0 0) = Inr ()
   \<and> cache (snd (make_my_tile (example_materializer 0) empty_world 0 1 0 0)) ''/0/1/0/0.png''
       = Some [2, 2, 20, 21, 25, 26]
   \<and> fst (make_my_tile (example_materializer 0)
            (snd (make_my_tile (example_materializer 0) empty_world 0 1 0 0)) 0 1 0 0) = Inr ()
   \<and> cache (snd (make_my_tile (example_materializer 0)
            (snd (make_my_tile (example_materializer 0) empty_world 0 1 0 0)) 0 1 0 0)) ''/0/1/0/0.png''
       = Some [2, 2, 20, 21, 25, 26]
   \<and> trace (snd (make_my_tile (example_materializer 0)
            (snd (make_my_tile (example_materializer 0) empty_world 0 1 0 0)) 0 1 0 0))
       = trace (snd (make_my_tile (example_materializer 0) empty_world 0 1 0 0))
           @ [CacheExists ''/0/1/0/0.png'']
   \<and> fst (make_my_tile (example_materializer 0) empty_world 0 7 0 0)
       = Inl (Exception (ValueError ''Tile out of z bounds: Request 7 for [0,3]''))
   \<and> fst (make_my_tile (example_materializer 0)
            (snd (make_my_tile (example_materializer 0) empty_world 0 7 0 0)) 0 7 0 0)
       = Inl (Exception (ValueError ''Tile out of z bounds: Request 7 for [0,3]''))"
proof -
  have first: "fst (make_my_tile (example_materializer 0) empty_world 0 1 0 0) = Inr ()"
    by code_simp
  have bytes: "cache (snd (make_my_tile (example_materializer 0) empty_world 0 1 0 0)) ''/0/1/0/0.png''
       = Some [2, 2, 20, 21, 25, 26]"
    by code_simp
  have key: "tile_key 0 1 0 0 = ''/0/1/0/0.png''"
    by code_simp
  have failing: "fst (make_my_tile (example_materializer 0) empty_world 0 7 0 0)
       = Inl (Exception (ValueError ''Tile out of z bounds: Request 7 for [0,3]''))"
    by code_simp
  show ?thesis
    using make_my_tile_twice [of "example_materializer 0" empty_world 0 1 0 0]
      make_my_tile_twice [of "example_materializer 0" empty_world 0 7 0 0] first bytes failing
    by (simp add: key)
qed

text \<open>
  Claim C6: if extraction or encoding raises inside \<^verbatim>\<open>make_my_tile\<close> (the key being
  absent, so that they run), the error reaches the caller, as \<^verbatim>\<open>Exception(e)\<close>
  around the error \<open>e\<close> that was raised, the cache is unchanged, and none of the effects
  of the call is a cache write.
\<close>

theorem make_my_tile_error_no_write:
  assumes miss: "cache w (tile_key zoom z row col) = None"
    and raises: "fst (get_2d_tile (tile_server m) col row z zoom w) = Inl e
                 \<or> (\<exists>tile. fst (get_2d_tile (tile_server m) col row z zoom w) = Inr tile
                        \<and> png_encode m tile = Inl e)"
  shows "fst (make_my_tile m w zoom z row col) = Inl (Exception e)
         \<and> cache (snd (make_my_tile m w zoom z row col)) = cache w
         \<and> (\<exists>evs. trace (snd (make_my_tile m w zoom z row col)) = trace w @ evs
                \<and> (\<forall>k img. CacheSet k img \<notin> set evs))"
proof -
  let ?k = "tile_key zoom z row col"
  let ?w0 = "emit (CacheExists ?k) w"
  obtain r w1 where g: "get_2d_tile (tile_server m) col row z zoom ?w0 = (r, w1)"
    by (cases "get_2d_tile (tile_server m) col row z zoom ?w0")
  have r: "r = fst (get_2d_tile (tile_server m) col row z zoom w)"
    using get_2d_tile_result_indep [of "tile_server m" col row z zoom ?w0 w] by (simp add: g)
  have c1: "cache w1 = cache w"
    using get_2d_tile_cache [of "tile_server m" col row z zoom ?w0] by (simp add: g)
  have t1: "trace w1 = trace w @ [CacheExists ?k] \<or>
            (\<exists>x0 x1 y0 y1. trace w1 = trace w @ [CacheExists ?k, VolumeRead zoom x0 x1 y0 y1 z])"
    using g by (auto simp add: get_2d_tile_def Let_def split: option.splits if_splits sum.splits)
  from raises show ?thesis
  proof
    assume "fst (get_2d_tile (tile_server m) col row z zoom w) = Inl e"
    then have res: "make_my_tile m w zoom z row col = (Inl (Exception e), w1)"
      using r by (simp add: make_my_tile_miss [OF miss] g)
    from t1 show ?thesis
      unfolding res using c1 by auto
  next
    assume "\<exists>tile. fst (get_2d_tile (tile_server m) col row z zoom w) = Inr tile
              \<and> png_encode m tile = Inl e"
    then have res: "make_my_tile m w zoom z row col = (Inl (Exception e), emit ImageEncode w1)"
      using r by (auto simp add: make_my_tile_miss [OF miss] g)
    from t1 show ?thesis
      unfolding res using c1 by auto
  qed
qed

theorem make_my_tile_error_no_write_witness:
  "fst (make_my_tile (example_materializer 0) empty_world 0 7 0 0)
     = Inl (Exception (ValueError ''Tile out of z bounds: Request 7 for [0,3]''))
   \<and> cache (snd (make_my_tile (example_materializer 0) empty_world 0 7 0 0)) = cache empty_world
   \<and> fst (make_my_tile (example_materializer 0) empty_world 1 1 0 0)
     = Inl (Exception (LibraryError ''cannot write this data type as PNG''))
   \<and> cache (snd (make_my_tile (example_materializer 0) empty_world 1 1 0 0)) = cache empty_world"
proof -
  have a: "fst (get_2d_tile (tile_server (example_materializer 0)) 0 0 7 0 empty_world)
             = Inl (ValueError ''Tile out of z bounds: Request 7 for [0,3]'')"
    by code_simp
  have b: "fst (get_2d_tile (tile_server (example_materializer 0)) 0 0 1 1 empty_world)
             = Inr \<lparr>shape = (2, 2), dtype = ''float32'', rows = [[20, 21], [25, 26]]\<rparr>"
    by code_simp
  have c: "png_encode (example_materializer 0)
             \<lparr>shape = (2, 2), dtype = ''float32'', rows = [[20, 21], [25, 26]]\<rparr>
             = Inl (LibraryError ''cannot write this data type as PNG'')"
    by code_simp
  have m: "cache empty_world k = None" for k
    by (simp add: empty_world_def)
  show ?thesis
    using make_my_tile_error_no_write [of empty_world 0 7 0 0 "example_materializer 0"
        "ValueError ''Tile out of z bounds: Request 7 for [0,3]''"]
      make_my_tile_error_no_write [of empty_world 1 1 0 0 "example_materializer 0"
        "LibraryError ''cannot write this data type as PNG''"]
      a b c m
    by simp
qed

text \<open>
  Claim C10: if the key of a tile address is already in the cache, \<^verbatim>\<open>make_my_tile\<close>
  succeeds at once, with the existence check as its only effect: no bounds check and no
  volume read happen, also for an address that extraction would refuse (z out of range,
  a zoom that was never opened).
\<close>

theorem cached_key_short_circuit:
  assumes "cache w (tile_key zoom z row col) \<noteq> None"
  shows "fst (make_my_tile m w zoom z row col) = Inr ()
         \<and> cache (snd (make_my_tile m w zoom z row col)) = cache w
         \<and> trace (snd (make_my_tile m w zoom z row col))
             = trace w @ [CacheExists (tile_key zoom z row col)]"
  using make_my_tile_hit [OF assms] by simp

theorem cached_key_short_circuit_witness:
  "fst (get_2d_tile example_server 0 0 20 0 \<lparr>cache = [''/0/20/0/0.png'' \<mapsto> [1, 2, 3]], trace = []\<rparr>)
     = Inl (ValueError ''Tile out of z bounds: Request 20 for [0,3]'')
   \<and> fst (get_2d_tile example_server 0 0 1 5 \<lparr>cache = [''/5/1/0/0.png'' \<mapsto> []], trace = []\<rparr>)
     = Inl (KeyError 5)
   \<and> fst (make_my_tile (example_materializer 0)
            \<lparr>cache = [''/0/20/0/0.png'' \<mapsto> [1, 2, 3]], trace = []\<rparr> 0 20 0 0) = Inr ()
   \<and> trace (snd (make_my_tile (example_materializer 0)
            \<lparr>cache = [''/0/20/0/0.png'' \<mapsto> [1, 2, 3]], trace = []\<rparr> 0 20 0 0))
       = [CacheExists ''/0/20/0/0.png'']
   \<and> fst (make_my_tile (example_materializer 0)
            \<lparr>cache = [''/5/1/0/0.png'' \<mapsto> []], trace = []\<rparr> 5 1 0 0) = Inr ()"
proof -
  have k1: "tile_key 0 20 0 0 = ''/0/20/0/0.png''" by code_simp
  have k2: "tile_key 5 1 0 0 = ''/5/1/0/0.png''" by code_simp
  have a: "fst (get_2d_tile example_server 0 0 20 0 \<lparr>cache = [''/0/20/0/0.png'' \<mapsto> [1, 2, 3]], trace = []\<rparr>)
     = Inl (ValueError ''Tile out of z bounds: Request 20 for [0,3]'')"
    by code_simp
  have b: "fst (get_2d_tile example_server 0 0 1 5 \<lparr>cache = [''/5/1/0/0.png'' \<mapsto> []], trace = []\<rparr>)
     = Inl (KeyError 5)"
    by code_simp
  show ?thesis
    using cached_key_short_circuit [of "\<lparr>cache = [''/0/20/0/0.png'' \<mapsto> [1, 2, 3]], trace = []\<rparr>"
        0 20 0 0 "example_materializer 0"]
      cached_key_short_circuit [of "\<lparr>cache = [''/5/1/0/0.png'' \<mapsto> []], trace = []\<rparr>"
        5 1 0 0 "example_materializer 0"]
      a b
    by (simp add: k1 k2)
qed

section \<open>Prefetch of the neighbouring slices\<close>

lemma upto_map_int: "[0..int k - 1] = map int [0..<k]"
proof (induction k)
  case 0
  show ?case by simp
next
  case (Suc k)
  have "[0..int (Suc k) - 1] = [0..int k - 1] @ [int k]"
    using upto_rec2 [of 0 "int k"] by simp
  then show ?case using Suc by simp
qed

lemma prefetch_tasks_nat:
  "prefetch_tasks (int k) zoom z row col =
     concat (map (\<lambda>i. [(zoom, z + int i, row, col), (zoom, z - int i, row, col)]) [0..<k])"
  by (simp add: prefetch_tasks_def upto_map_int comp_def)

lemma length_concat_pairs: "length (concat (map (\<lambda>i. [f i, g i]) xs)) = 2 * length xs"
  by (induction xs) simp_all

lemma make_tile_ok:
  assumes "fst (make_my_tile m w zoom z row col) = Inr ()"
  shows "make_tile m w row col z zoom =
           (Inr (), snd (make_my_tile m w zoom z row col),
            if PREFETCH_ADJACENT_Z m > 0
            then prefetch_tasks (PREFETCH_ADJACENT_Z m) zoom z row col else [])"
  using assms by (cases "make_my_tile m w zoom z row col") (simp add: make_tile_def)

lemma make_tile_error:
  assumes "fst (make_my_tile m w zoom z row col) = Inl e"
  shows "make_tile m w row col z zoom =
           (Inl (HTTPException 404 (str_exn e)), snd (make_my_tile m w zoom z row col), [])"
  using assms by (cases "make_my_tile m w zoom z row col") (simp add: make_tile_def)

text \<open>
  Claim C7: with \<open>PREFETCH_ADJACENT_Z = k > 0\<close> and a synchronous materialization of
  \<open>(zoom, z, row, col)\<close> that succeeds, \<^verbatim>\<open>make_tile\<close> succeeds and adds exactly \<open>2k\<close>
  background tasks, \<open>(zoom, z + i, row, col)\<close> and \<open>(zoom, z - i, row, col)\<close> for
  \<open>i = 0, \<dots>, k - 1\<close> in this order, without running them; each task is a call of
  \<^verbatim>\<open>make_my_tile\<close> on its own address, so it runs the cache-aside protocol with its
  own existence check.
\<close>

theorem prefetch_schedules_2k:
  assumes n: "PREFETCH_ADJACENT_Z m = int k"
    and pos: "0 < k"
    and ok: "fst (make_my_tile m w zoom z row col) = Inr ()"
  shows "fst (make_tile m w row col z zoom) = Inr ()
         \<and> fst (snd (make_tile m w row col z zoom)) = snd (make_my_tile m w zoom z row col)
         \<and> snd (snd (make_tile m w row col z zoom))
             = concat (map (\<lambda>i. [(zoom, z + int i, row, col), (zoom, z - int i, row, col)]) [0..<k])
         \<and> length (snd (snd (make_tile m w row col z zoom))) = 2 * k
         \<and> (\<forall>i w'. run_task m w' (zoom, z + int i, row, col) = make_my_tile m w' zoom (z + int i) row col
                  \<and> run_task m w' (zoom, z - int i, row, col) = make_my_tile m w' zoom (z - int i) row col)"
proof -
  have mt: "make_tile m w row col z zoom =
      (Inr (), snd (make_my_tile m w zoom z row col),
       concat (map (\<lambda>i. [(zoom, z + int i, row, col), (zoom, z - int i, row, col)]) [0..<k]))"
    using make_tile_ok [OF ok] n pos by (simp add: prefetch_tasks_nat)
  show ?thesis
    unfolding mt by (simp add: length_concat_pairs)
qed

theorem prefetch_schedules_2k_witness:
  "snd (snd (make_tile (example_materializer 3) empty_world 0 0 0 0))
     = [(0, 0, 0, 0), (0, 0, 0, 0), (0, 1, 0, 0), (0, - 1, 0, 0), (0, 2, 0, 0), (0, - 2, 0, 0)]
   \<and> length (snd (snd (make_tile (example_materializer 3) empty_world 0 0 0 0))) = 6"
proof -
  have ok: "fst (make_my_tile (example_materializer 3) empty_world 0 0 0 0) = Inr ()"
    by code_simp
  have n: "PREFETCH_ADJACENT_Z (example_materializer 3) = int 3"
    by (simp add: example_materializer_def)
  show ?thesis
    using prefetch_schedules_2k [OF n _ ok] by (simp add: eval_nat_numeral)
qed

lemma run_task_error_cache:
  assumes "fst (run_task m w t) = Inl e"
  shows "cache (snd (run_task m w t)) = cache w"
proof -
  obtain zoom z row col where t: "t = (zoom, z, row, col)" by (cases t)
  show ?thesis
    using assms make_my_tile_error_cache [of m w zoom z row col e] by (simp add: t)
qed

lemma run_background_tasks_append:
  "fst (run_background_tasks m w ts1) = None \<Longrightarrow>
     run_background_tasks m w (ts1 @ ts) = run_background_tasks m (snd (run_background_tasks m w ts1)) ts"
proof (induction ts1 arbitrary: w)
  case Nil
  show ?case by simp
next
  case (Cons t ts1)
  obtain r w1 where rt: "run_task m w t = (r, w1)" by (cases "run_task m w t")
  show ?case
  proof (cases r)
    case (Inl e)
    with Cons.prems rt show ?thesis by simp
  next
    case (Inr u)
    with Cons.prems rt have "fst (run_background_tasks m w1 ts1) = None" by simp
    from Cons.IH [OF this] show ?thesis using rt Inr by simp
  qed
qed

text \<open>
  Claim C8 says that a failing prefetch task never reaches the response of the
  triggering request and does not prevent the remaining tasks from running. The first
  half holds, the second does not: \<^verbatim>\<open>make_my_tile\<close> raises its error again, and the
  loop over the tasks has no handler, so the first failing task ends it. On the example
  deployment with \<open>PREFETCH_ADJACENT_Z = 3\<close> a request for slice 0 schedules the slices
  0, 0, 1, -1, 2, -2; the task for slice -1 fails, and the task for slice 2, which would
  succeed, is never started.
\<close>

theorem prefetch_failure_blocks_counterexample:
  "snd (snd (make_tile (example_materializer 3) empty_world 0 0 0 0))
     = [(0, 0, 0, 0), (0, 0, 0, 0), (0, 1, 0, 0), (0, - 1, 0, 0), (0, 2, 0, 0), (0, - 2, 0, 0)]
   \<and> fst (run_background_tasks (example_materializer 3)
            (fst (snd (make_tile (example_materializer 3) empty_world 0 0 0 0)))
            (snd (snd (make_tile (example_materializer 3) empty_world 0 0 0 0))))
       = Some (Exception (ValueError ''Tile out of z bounds: Request -1 for [0,3]''))
   \<and> cache (snd (serve_make_tile (example_materializer 3) empty_world 0 0 0 0)) ''/0/1/0/0.png''
       = Some [2, 2, 20, 21, 25, 26]
   \<and> cache (snd (serve_make_tile (example_materializer 3) empty_world 0 0 0 0)) ''/0/2/0/0.png''
       = None
   \<and> CacheExists ''/0/2/0/0.png''
       \<notin> set (trace (snd (serve_make_tile (example_materializer 3) empty_world 0 0 0 0)))
   \<and> fst (run_task (example_materializer 3)
            (snd (serve_make_tile (example_materializer 3) empty_world 0 0 0 0)) (0, 2, 0, 0))
       = Inr ()"
  by code_simp

text \<open>
  Claim C8 as amended: when the synchronous materialization succeeds and, among the
  scheduled tasks, the tasks before some task \<open>t\<close> run without error and \<open>t\<close> fails, the
  response of the triggering request is still the success response; the failure of \<open>t\<close>
  ends the task loop (the tasks after \<open>t\<close> are not run), and the cache is left as the
  tasks before \<open>t\<close> left it.
\<close>

theorem prefetch_failure_contained:
  assumes ok: "fst (make_my_tile m w zoom z row col) = Inr ()"
    and split: "snd (snd (make_tile m w row col z zoom)) = ts1 @ t # ts2"
    and before: "fst (run_background_tasks m (snd (make_my_tile m w zoom z row col)) ts1) = None"
    and fails: "fst (run_task m (snd (run_background_tasks m (snd (make_my_tile m w zoom z row col)) ts1)) t)
                  = Inl e"
  shows "fst (serve_make_tile m w row col z zoom) = json_response JNull
         \<and> fst (run_background_tasks m (snd (make_my_tile m w zoom z row col)) (ts1 @ t # ts2)) = Some e
         \<and> cache (snd (serve_make_tile m w row col z zoom))
             = cache (snd (run_background_tasks m (snd (make_my_tile m w zoom z row col)) ts1))"
proof -
  let ?w1 = "snd (make_my_tile m w zoom z row col)"
  let ?wb = "snd (run_background_tasks m ?w1 ts1)"
  obtain r w2 where rt: "run_task m ?wb t = (r, w2)" by (cases "run_task m ?wb t")
  from fails rt have r: "r = Inl e" by simp
  have c2: "cache w2 = cache ?wb"
    using run_task_error_cache [OF fails] rt by simp
  have run: "run_background_tasks m ?w1 (ts1 @ t # ts2) = (Some e, w2)"
    using run_background_tasks_append [OF before, of "t # ts2"] rt r by simp
  have mt: "make_tile m w row col z zoom = (Inr (), ?w1, ts1 @ t # ts2)"
    using make_tile_ok [OF ok] split by simp
  show ?thesis
    using run c2 by (simp add: serve_make_tile_def mt send_def)
qed

theorem prefetch_failure_contained_witness:
  "fst (serve_make_tile (example_materializer 3) empty_world 0 0 0 0) = json_response JNull
   \<and> fst (run_background_tasks (example_materializer 3)
            (snd (make_my_tile (example_materializer 3) empty_world 0 0 0 0))
            ([(0, 0, 0, 0), (0, 0, 0, 0), (0, 1, 0, 0)] @ (0, - 1, 0, 0) # [(0, 2, 0, 0), (0, - 2, 0, 0)]))
       = Some (Exception (ValueError ''Tile out of z bounds: Request -1 for [0,3]''))"
proof -
  have ok: "fst (make_my_tile (example_materializer 3) empty_world 0 0 0 0) = Inr ()"
    by code_simp
  have split: "snd (snd (make_tile (example_materializer 3) empty_world 0 0 0 0))
     = [(0, 0, 0, 0), (0, 0, 0, 0), (0, 1, 0, 0)] @ (0, - 1, 0, 0) # [(0, 2, 0, 0), (0, - 2, 0, 0)]"
    by code_simp
  have before: "fst (run_background_tasks (example_materializer 3)
                   (snd (make_my_tile (example_materializer 3) empty_world 0 0 0 0))
                   [(0, 0, 0, 0), (0, 0, 0, 0), (0, 1, 0, 0)]) = None"
    by code_simp
  have fails: "fst (run_task (example_materializer 3)
                  (snd (run_background_tasks (example_materializer 3)
                     (snd (make_my_tile (example_materializer 3) empty_world 0 0 0 0))
                     [(0, 0, 0, 0), (0, 0, 0, 0), (0, 1, 0, 0)])) (0, - 1, 0, 0))
                = Inl (Exception (ValueError ''Tile out of z bounds: Request -1 for [0,3]''))"
    by code_simp
  from prefetch_failure_contained [OF ok split before fails] show ?thesis by simp
qed

section \<open>The edge\<close>

text \<open>
  Whenever \<^verbatim>\<open>make_my_tile\<close> fails, the materializer answers 404 with the reason, and
  the edge, which does not look at that answer, answers 200 with an empty image.
\<close>

lemma edge_ignores_failure:
  assumes "fst (make_my_tile m w zoom z row col) = Inl e"
  shows "fst (serve_make_tile m w row col z zoom)
           = \<lparr>status = 404, media_type = ''application/json'',
              body = JsonBody (JObj [(''detail'', JStr (str_exn e))])\<rparr>
         \<and> fst (serve_tile m w row col z zoom)
           = \<lparr>status = 200, media_type = ''image/png'', body = StreamBody []\<rparr>"
proof -
  let ?w1 = "snd (make_my_tile m w zoom z row col)"
  have miss: "cache w (tile_key zoom z row col) = None"
    using assms make_my_tile_hit [of w zoom z row col m] by (cases "cache w (tile_key zoom z row col)") auto
  have c1: "cache ?w1 = cache w" using assms by (rule make_my_tile_error_cache)
  have sm: "serve_make_tile m w row col z zoom
      = (\<lparr>status = 404, media_type = ''application/json'',
              body = JsonBody (JObj [(''detail'', JStr (str_exn e))])\<rparr>, ?w1)"
    by (simp add: serve_make_tile_def make_tile_error [OF assms] send_def)
  show ?thesis
    using c1 miss
    by (simp add: sm serve_tile_def get_tile_def response_json_def BytesIO_def send_def Let_def)
qed

text \<open>
  Claim C5 says that when the materializer's cache-aside call fails, the edge's
  \<^verbatim>\<open>get_tile\<close> surfaces a not-found error that carries the reason. The materializer's
  \<^verbatim>\<open>make_tile\<close> builds exactly that error, and \<^verbatim>\<open>get_tile\<close> loses it: for slice 7
  of the example volume (3 slices) and an empty cache, \<^verbatim>\<open>make_tile\<close> answers 404 with
  the reason, while \<^verbatim>\<open>get_tile\<close> returns a response of status 200, media type
  \<^verbatim>\<open>image/png\<close> and an empty body.
\<close>

theorem edge_empty_image_on_failure:
  "fst (make_my_tile (example_materializer 0) empty_world 0 7 0 0)
     = Inl (Exception (ValueError ''Tile out of z bounds: Request 7 for [0,3]''))
   \<and> fst (serve_make_tile (example_materializer 0) empty_world 0 0 7 0)
     = \<lparr>status = 404, media_type = ''application/json'',
        body = JsonBody (JObj [(''detail'', JStr ''Tile out of z bounds: Request 7 for [0,3]'')])\<rparr>
   \<and> fst (get_tile (example_materializer 0) empty_world 0 0 7 0)
     = Inr \<lparr>status = 200, media_type = ''image/png'', body = StreamBody []\<rparr>
   \<and> fst (serve_tile (example_materializer 0) empty_world 0 0 7 0)
     = \<lparr>status = 200, media_type = ''image/png'', body = StreamBody []\<rparr>"
  by code_simp

section \<open>Volume metadata\<close>

text \<open>
  Claim C9 says that a volume-info request for a zoom that was not opened fails with a
  404-class error rather than an unhandled internal error. \<^verbatim>\<open>volume_info\<close> indexes
  \<^verbatim>\<open>tile_server.shapes\<close> with no test and no handler: for zoom 7 of the example
  deployment it raises \<open>KeyError\<close>, which is answered with status 500, and the edge,
  which cannot parse that answer as JSON, answers 500 as well.
\<close>

theorem volume_info_unconfigured_counterexample:
  "dataset_3d example_server 7 = None
   \<and> volume_info example_server 7 = Inl (Unhandled (KeyError 7))
   \<and> status (serve_volume_info example_server 7) = 500
   \<and> get_volume_info example_server 7 = Inl (Unhandled (LibraryError ''JSONDecodeError''))
   \<and> status (serve_get_volume_info example_server 7) = 500"
  by code_simp

text \<open>
  Claim C9 as amended: a volume-info request for a zoom that was not opened at startup
  fails with an unhandled \<open>KeyError\<close>, answered with status 500 by the materializer and
  by the edge; for an opened zoom both answer with the volume's shape, its dtype string
  and the configured tile size.
\<close>

theorem volume_info_cases:
  "(dataset_3d srv zoom = None \<longrightarrow>
      volume_info srv zoom = Inl (Unhandled (KeyError zoom))
      \<and> status (serve_volume_info srv zoom) = 500
      \<and> status (serve_get_volume_info srv zoom) = 500)
   \<and> (\<forall>vol sx sy sz. dataset_3d srv zoom = Some vol \<and> vshape vol = (sx, sy, sz) \<longrightarrow>
        serve_volume_info srv zoom
          = json_response (JObj [(''shape'', JList [JInt sx, JInt sy, JInt sz]),
                                 (''dtype'', JStr (vdtype vol)),
                                 (''tile_size'', JInt (tile_size srv))])
        \<and> serve_get_volume_info srv zoom
          = json_response (JObj [(''shape'', JList [JInt sx, JInt sy, JInt sz]),
                                 (''dtype'', JStr (vdtype vol)),
                                 (''tile_size'', JInt (tile_size srv))]))"
  by (simp add: volume_info_def serve_volume_info_def serve_get_volume_info_def get_volume_info_def
      shapes_def dtypes_def send_def response_json_def json_response_def)

theorem volume_info_cases_witness:
  "status (serve_get_volume_info example_server 7) = 500
   \<and> serve_get_volume_info example_server 0
       = json_response (JObj [(''shape'', JList [JInt 5, JInt 4, JInt 3]),
                              (''dtype'', JStr ''uint8''), (''tile_size'', JInt 2)])"
  using volume_info_cases [of example_server 7] volume_info_cases [of example_server 0]
  by (simp add: example_defs)

end
